theory Spec2Isabelle
  imports Main
begin

section \<open>Data model\<close>

text \<open>
  The extension's command handlers live in \<^verbatim>\<open>src/vscode/src/azure/commands.ts\<close>. The
  entity types they import from \<^verbatim>\<open>./treeView\<close> are declared outside the given sources.

  Modelled from the spec: the declarations of \<^verbatim>\<open>Target\<close>, \<^verbatim>\<open>Job\<close>, \<^verbatim>\<open>Provider\<close> and
  \<^verbatim>\<open>WorkspaceConnection\<close> (file \<^verbatim>\<open>treeView.ts\<close>) are missing; the records below follow
  section 3 of the specification. Every entity has an \<^verbatim>\<open>id\<close>; the record fields carry a
  prefix because HOL record fields share one name space.
\<close>

record Target =
  target_id :: string

record Job =
  job_id :: string
  status :: string
  outputDataUri :: "string option"

record Provider =
  provider_id :: string
  targets :: "Target list"

record WorkspaceConnection =
  ws_id :: string
  name :: string
  endpointUri :: string
  tenantId :: string
  apiKey :: string
  providers :: "Provider list"
  jobs :: "Job list"

text \<open>
  A tree item carries a discriminant \<^verbatim>\<open>type\<close> and an untyped payload \<^verbatim>\<open>itemData\<close> that the
  handlers cast (\<^verbatim>\<open>as Target\<close>, \<^verbatim>\<open>as Job\<close>, \<^verbatim>\<open>as WorkspaceConnection\<close>). A cast checks nothing
  at run time, so the payload is a union and each property read is a total accessor that
  yields what JavaScript would read from the object that is really there.
\<close>

datatype item_type = TWorkspace | TProvider | TTarget | TJob

datatype item_data =
    WorkspaceData WorkspaceConnection
  | ProviderData Provider
  | TargetData Target
  | JobData Job

record WorkspaceTreeItem =
  label :: "string option"
  workspace :: WorkspaceConnection
  itemType :: item_type
  itemData :: item_data

fun data_id :: "item_data \<Rightarrow> string" where
  "data_id (WorkspaceData w) = ws_id w"
| "data_id (ProviderData p) = provider_id p"
| "data_id (TargetData t) = target_id t"
| "data_id (JobData j) = job_id j"

fun data_status :: "item_data \<Rightarrow> string option" where
  "data_status (JobData j) = Some (status j)"
| "data_status _ = None"

fun data_outputDataUri :: "item_data \<Rightarrow> string option" where
  "data_outputDataUri (JobData j) = outputDataUri j"
| "data_outputDataUri _ = None"

text \<open>JavaScript truthiness of a string, and of a value that is a string or \<^verbatim>\<open>undefined\<close>.\<close>

definition truthy :: "string \<Rightarrow> bool" where
  "truthy s = (s \<noteq> [])"

fun truthy_opt :: "string option \<Rightarrow> bool" where
  "truthy_opt None = False"
| "truthy_opt (Some s) = truthy s"

section \<open>Workspace registry\<close>

text \<open>
  Modelled from the spec: the class \<^verbatim>\<open>WorkspaceTreeProvider\<close> (file \<^verbatim>\<open>treeView.ts\<close>) is
  missing. Section 4.1 of the specification describes it as an in-memory mapping of
  workspace id to WorkspaceConnection with the operations upsert, remove, get and listIds;
  \<^verbatim>\<open>commands.ts\<close> calls them \<^verbatim>\<open>updateWorkspace\<close>, \<^verbatim>\<open>removeWorkspace\<close>, \<^verbatim>\<open>getWorkspace\<close> and
  \<^verbatim>\<open>getWorkspaceIds\<close>. The mapping is an association list so that listIds has an order.
\<close>

type_synonym registry = "(string \<times> WorkspaceConnection) list"

fun updateWorkspace :: "WorkspaceConnection \<Rightarrow> registry \<Rightarrow> registry" where
  "updateWorkspace w [] = [(ws_id w, w)]"
| "updateWorkspace w ((k, v) # r) =
     (if k = ws_id w then (k, w) # r else (k, v) # updateWorkspace w r)"

definition removeWorkspace :: "string \<Rightarrow> registry \<Rightarrow> registry" where
  "removeWorkspace i r = filter (\<lambda>kv. fst kv \<noteq> i) r"

definition getWorkspace :: "string \<Rightarrow> registry \<Rightarrow> WorkspaceConnection option" where
  "getWorkspace i r = map_of r i"

definition getWorkspaceIds :: "registry \<Rightarrow> string list" where
  "getWorkspaceIds r = map fst r"

text \<open>A sequence of upsert calls, applied from left to right.\<close>

definition upsert_all :: "WorkspaceConnection list \<Rightarrow> registry \<Rightarrow> registry" where
  "upsert_all ws r = foldl (\<lambda>acc w. updateWorkspace w acc) r ws"

section \<open>External collaborators\<close>

text \<open>
  A value thrown by an awaited call. The handlers read \<^verbatim>\<open>e?.name\<close>, \<^verbatim>\<open>e.message\<close> and test
  \<^verbatim>\<open>e instanceof Error\<close>; a thrown value without a name has \<open>thrown_name = None\<close>.
\<close>

datatype thrown = Thrown (thrown_name: "string option") (thrown_message: string) (instanceof_Error: bool)

text \<open>\<^verbatim>\<open>new QuantumUris(endpointUri, id)\<close>: the two constructor arguments.\<close>

datatype QuantumUris = QuantumUris string string

text \<open>
  The functions the handlers import from other modules and from the host are parameters of
  the model: each handler takes an environment that says what every such call answers
  (\<open>Inl\<close> a thrown value, \<open>Inr\<close> the returned one; \<^verbatim>\<open>undefined\<close> is \<open>None\<close>). The field
  \<open>uri_path\<close> is \<^verbatim>\<open>vscode.Uri.parse(text).path\<close>, which throws on text it cannot parse.
\<close>

record env =
  targetSupportQir :: "string \<Rightarrow> bool"
  supportsAdaptive :: "string \<Rightarrow> bool"
  getQirForActiveWindow :: "bool \<Rightarrow> thrown + string"
  getTokenForWorkspace :: "WorkspaceConnection \<Rightarrow> thrown + string option"
  submitJob :: "string \<Rightarrow> QuantumUris \<Rightarrow> string \<Rightarrow> string \<Rightarrow> string \<Rightarrow> thrown + string option"
  getJobFiles :: "string option \<Rightarrow> string option \<Rightarrow> string \<Rightarrow> QuantumUris \<Rightarrow> thrown + string option"
  queryWorkspaces :: "thrown + WorkspaceConnection option"
  JSON_stringify :: "WorkspaceConnection list \<Rightarrow> string"
  JSON_parse :: "string \<Rightarrow> thrown + WorkspaceConnection list"
  uri_path :: "string \<Rightarrow> thrown + string"
  openTextDocument :: "string \<Rightarrow> thrown option"

text \<open>
  Everything a handler does to the outside, in the order it does it: calls to the
  collaborators, messages to the user, log lines, writes to the secret store, UI-context
  flags and refresh cycles started (\<^verbatim>\<open>startRefreshCycle\<close> is not awaited). The error message
  carries its \<^verbatim>\<open>modal\<close> option and its \<^verbatim>\<open>detail\<close>.
\<close>

datatype effect =
    LogDebug string
  | LogError string
  | ShowErrorMessage string bool "string option"
  | ShowTextDocument string
  | SetContext string bool
  | SecretsStore string string
  | StartRefreshCycle WorkspaceConnection "string option"
  | Call_getQirForActiveWindow bool
  | Call_getTokenForWorkspace WorkspaceConnection
  | Call_submitJob string QuantumUris string string string
  | Call_getJobFiles "string option" "string option" string QuantumUris
  | Call_queryWorkspaces
  | Call_openTextDocument string

text \<open>How an async handler ends: it returns, or its promise is rejected with a thrown value.\<close>

datatype outcome = Done | Rejected thrown

text \<open>
  The state the closures of \<^verbatim>\<open>initAzureWorkspaces\<close> share: the tree provider's registry, the
  extension's secret store and the variable \<^verbatim>\<open>currentTreeItem\<close>. The secret store is the
  host's key/value interface, modelled as a map: \<^verbatim>\<open>get\<close> reads it and \<^verbatim>\<open>store\<close> updates
  it; a failure of the host's store itself is outside the model.
\<close>

record state =
  registry :: registry
  secrets :: "string \<rightharpoonup> string"
  currentTreeItem :: "WorkspaceTreeItem option"

section \<open>String helpers\<close>

text \<open>\<^verbatim>\<open>s.split(c)\<close> for a one-character separator: never empty, \<^verbatim>\<open>"".split(c)\<close> is \<^verbatim>\<open>[""]\<close>.\<close>

fun split_on :: "char \<Rightarrow> string \<Rightarrow> string list" where
  "split_on c [] = [[]]"
| "split_on c (x # xs) =
     (if x = c then [] # split_on c xs
      else (case split_on c xs of [] \<Rightarrow> [[x]] | h # t \<Rightarrow> (x # h) # t))"

text \<open>Reading an array element: \<^verbatim>\<open>undefined\<close> out of range.\<close>

fun nth_opt :: "'a list \<Rightarrow> nat \<Rightarrow> 'a option" where
  "nth_opt [] n = None"
| "nth_opt (x # xs) 0 = Some x"
| "nth_opt (x # xs) (Suc n) = nth_opt xs n"

section \<open>The handlers of commands.ts\<close>

definition workspacesSecret :: string where
  "workspacesSecret = ''qsharp-vscode.workspaces''"

text \<open>\<^verbatim>\<open>arg || currentTreeItem\<close>.\<close>

definition resolve_item :: "WorkspaceTreeItem option \<Rightarrow> state \<Rightarrow> WorkspaceTreeItem option" where
  "resolve_item arg s = (case arg of Some a \<Rightarrow> Some a | None \<Rightarrow> currentTreeItem s)"

text \<open>\<^verbatim>\<open>treeItem?.type === t\<close>: there is an item and it has the type \<open>t\<close>.\<close>

definition item_is :: "item_type \<Rightarrow> WorkspaceTreeItem option \<Rightarrow> bool" where
  "item_is t x = (case x of None \<Rightarrow> False | Some i \<Rightarrow> itemType i = t)"

text \<open>\<^verbatim>\<open>currentTreeItem.label?.toString() || ""\<close>.\<close>

definition label_text :: "WorkspaceTreeItem \<Rightarrow> string" where
  "label_text item = (case label item of None \<Rightarrow> [] | Some l \<Rightarrow> if truthy l then l else [])"

subsection \<open>Loading the saved workspaces\<close>

text \<open>The loop over the parsed list: update the tree provider, start a refresh cycle.\<close>

fun load_workspaces :: "WorkspaceConnection list \<Rightarrow> registry \<Rightarrow> registry \<times> effect list" where
  "load_workspaces [] r = (r, [])"
| "load_workspaces (w # ws) r =
     (case load_workspaces ws (updateWorkspace w r) of
        (r', es) \<Rightarrow> (r', StartRefreshCycle w None # es))"

text \<open>
  The part of \<^verbatim>\<open>initAzureWorkspaces\<close> that runs at once: a fresh tree provider, then the
  saved list, read from the secrets of the extension context. \<^verbatim>\<open>JSON.parse\<close> may throw.
\<close>

definition initAzureWorkspaces :: "env \<Rightarrow> (string \<rightharpoonup> string) \<Rightarrow> state \<times> effect list \<times> outcome" where
  "initAzureWorkspaces e sec =
     (let s0 = \<lparr>registry = [], secrets = sec, currentTreeItem = None\<rparr> in
      case sec workspacesSecret of
        None \<Rightarrow> (s0, [LogDebug ''No saved workspaces found.''], Done)
      | Some savedWorkspaces \<Rightarrow>
          if \<not> truthy savedWorkspaces then (s0, [LogDebug ''No saved workspaces found.''], Done)
          else (case JSON_parse e savedWorkspaces of
                  Inl x \<Rightarrow> (s0, [LogDebug ''Loading workspaces: ''], Rejected x)
                | Inr workspaces \<Rightarrow>
                    (case load_workspaces workspaces [] of
                       (r, es) \<Rightarrow> (s0\<lparr>registry := r\<rparr>, LogDebug ''Loading workspaces: '' # es, Done))))"

subsection \<open>Selection change\<close>

definition onDidChangeSelection :: "env \<Rightarrow> WorkspaceTreeItem list \<Rightarrow> state \<Rightarrow> state \<times> effect list" where
  "onDidChangeSelection e selection s =
     (case (case selection of
              [item] \<Rightarrow>
                (Some item,
                 itemType item = TTarget \<and> targetSupportQir e (label_text item),
                 itemType item = TJob \<and> data_status (itemData item) = Some ''Succeeded''
                   \<and> truthy_opt (data_outputDataUri (itemData item)),
                 itemType item = TWorkspace)
            | _ \<Rightarrow> (None, False, False, False)) of
        (cur, supportsQir, supportsDownload, isWorkspace) \<Rightarrow>
          (s\<lparr>currentTreeItem := cur\<rparr>,
           [SetContext ''qsharp-vscode.treeItemSupportsQir'' supportsQir,
            SetContext ''qsharp-vscode.treeItemSupportsDownload'' supportsDownload,
            SetContext ''qsharp-vscode.treeItemIsWorkspace'' isWorkspace]))"

subsection \<open>Submitting to a target\<close>

text \<open>\<^verbatim>\<open>target.id.split(".")?.[0]\<close>: the part of the target id before its first dot.\<close>

definition providerId_of :: "string \<Rightarrow> string" where
  "providerId_of targetId = (case split_on CHR ''.'' targetId of [] \<Rightarrow> [] | p # _ \<Rightarrow> p)"

text \<open>The \<^verbatim>\<open>catch\<close> block of the second \<^verbatim>\<open>try\<close>: log, then a modal error message.\<close>

definition submit_catch :: "thrown \<Rightarrow> effect list" where
  "submit_catch x =
     [LogError ''Failed to submit job. '',
      ShowErrorMessage ''Failed to submit the job to Azure.'' True
        (if instanceof_Error x then Some (thrown_message x) else None)]"

definition targetSubmit :: "env \<Rightarrow> WorkspaceTreeItem option \<Rightarrow> state \<Rightarrow> state \<times> effect list" where
  "targetSubmit e arg s =
     (case resolve_item arg s of
        None \<Rightarrow> (s, [])
      | Some treeItem \<Rightarrow>
          if itemType treeItem \<noteq> TTarget then (s, [])
          else
            let targetId = data_id (itemData treeItem);
                providerId = providerId_of targetId;
                supports_adaptive = supportsAdaptive e targetId;
                c1 = Call_getQirForActiveWindow supports_adaptive
            in (case getQirForActiveWindow e supports_adaptive of
                  Inl x \<Rightarrow>
                    if thrown_name x = Some ''QirGenerationError''
                    then (s, [c1, ShowErrorMessage (thrown_message x) False None])
                    else (s, [c1])
                | Inr qir \<Rightarrow>
                    if \<not> truthy qir then (s, [c1])
                    else
                      let quantumUris = QuantumUris (endpointUri (workspace treeItem)) (ws_id (workspace treeItem));
                          c2 = Call_getTokenForWorkspace (workspace treeItem)
                      in (case getTokenForWorkspace e (workspace treeItem) of
                            Inl x \<Rightarrow> (s, [c1, c2] @ submit_catch x)
                          | Inr None \<Rightarrow> (s, [c1, c2])
                          | Inr (Some token) \<Rightarrow>
                              if \<not> truthy token then (s, [c1, c2])
                              else
                                let c3 = Call_submitJob token quantumUris qir providerId targetId
                                in (case submitJob e token quantumUris qir providerId targetId of
                                      Inl x \<Rightarrow> (s, [c1, c2, c3] @ submit_catch x)
                                    | Inr jobId \<Rightarrow>
                                        if truthy_opt jobId
                                        then (s, [c1, c2, c3, StartRefreshCycle (workspace treeItem) jobId])
                                        else (s, [c1, c2, c3])))))"

subsection \<open>Saving the workspace list\<close>

text \<open>
  \<^verbatim>\<open>getWorkspace(id)!\<close> asserts a value that may be \<^verbatim>\<open>undefined\<close>; reading \<^verbatim>\<open>elem.id\<close> from it
  throws a TypeError. The loop pushes one stripped record for each workspace.
\<close>

definition undefined_read :: thrown where
  "undefined_read = Thrown (Some ''TypeError'') ''Cannot read properties of undefined'' True"

fun save_loop :: "WorkspaceConnection option list \<Rightarrow> WorkspaceConnection list \<Rightarrow> thrown + WorkspaceConnection list" where
  "save_loop [] savedWorkspaces = Inr savedWorkspaces"
| "save_loop (None # es) savedWorkspaces = Inl undefined_read"
| "save_loop (Some elem # es) savedWorkspaces =
     save_loop es (savedWorkspaces @
       [\<lparr>ws_id = ws_id elem, name = name elem, endpointUri = endpointUri elem,
         tenantId = tenantId elem, apiKey = apiKey elem, providers = [], jobs = []\<rparr>])"

definition saveWorkspaceList :: "env \<Rightarrow> state \<Rightarrow> state \<times> effect list \<times> outcome" where
  "saveWorkspaceList e s =
     (let workspaces = map (\<lambda>i. getWorkspace i (registry s)) (getWorkspaceIds (registry s)) in
      case save_loop workspaces [] of
        Inl x \<Rightarrow> (s, [], Rejected x)
      | Inr savedWorkspaces \<Rightarrow>
          (s\<lparr>secrets := (secrets s)(workspacesSecret \<mapsto> JSON_stringify e savedWorkspaces)\<rparr>,
           [LogDebug ''Saving workspaces: '',
            SecretsStore workspacesSecret (JSON_stringify e savedWorkspaces)],
           Done))"

subsection \<open>Adding and removing a workspace\<close>

definition workspacesAdd :: "env \<Rightarrow> state \<Rightarrow> state \<times> effect list \<times> outcome" where
  "workspacesAdd e s =
     (case queryWorkspaces e of
        Inl x \<Rightarrow> (s, [Call_queryWorkspaces], Rejected x)
      | Inr None \<Rightarrow> (s, [Call_queryWorkspaces], Done)
      | Inr (Some w) \<Rightarrow>
          (case saveWorkspaceList e (s\<lparr>registry := updateWorkspace w (registry s)\<rparr>) of
             (s', es, Rejected x) \<Rightarrow> (s', Call_queryWorkspaces # es, Rejected x)
           | (s', es, Done) \<Rightarrow> (s', Call_queryWorkspaces # es @ [StartRefreshCycle w None], Done)))"

definition workspacesRemove :: "env \<Rightarrow> WorkspaceTreeItem option \<Rightarrow> state \<Rightarrow> state \<times> effect list \<times> outcome" where
  "workspacesRemove e arg s =
     (case resolve_item arg s of
        None \<Rightarrow> (s, [], Done)
      | Some treeItem \<Rightarrow>
          if itemType treeItem \<noteq> TWorkspace then (s, [], Done)
          else saveWorkspaceList e
                 (s\<lparr>registry := removeWorkspace (data_id (itemData treeItem)) (registry s)\<rparr>))"

subsection \<open>Downloading results\<close>

definition download_catch :: "thrown \<Rightarrow> effect list" where
  "download_catch x =
     [LogError ''Failed to download result file. '',
      ShowErrorMessage ''Failed to download the results file.'' True
        (if instanceof_Error x then Some (thrown_message x) else None)]"

text \<open>
  \<^verbatim>\<open>vscode.Uri.parse(job.outputDataUri)\<close> stands before the \<^verbatim>\<open>try\<close> block: when it throws,
  the handler's promise is rejected and nothing else happens. What follows it, from the
  token on, is inside the \<^verbatim>\<open>try\<close>.
\<close>

definition downloadResults :: "env \<Rightarrow> WorkspaceTreeItem option \<Rightarrow> state \<Rightarrow> state \<times> effect list \<times> outcome" where
  "downloadResults e arg s =
     (case resolve_item arg s of
        None \<Rightarrow> (s, [], Done)
      | Some treeItem \<Rightarrow>
          if itemType treeItem \<noteq> TJob then (s, [], Done)
          else (case data_outputDataUri (itemData treeItem) of
                  None \<Rightarrow> (s, [LogError ''Download called for job with null outputDataUri''], Done)
                | Some uri \<Rightarrow>
                    if \<not> truthy uri
                    then (s, [LogError ''Download called for job with null outputDataUri''], Done)
                    else (case uri_path e uri of
                      Inl x \<Rightarrow> (s, [], Rejected x)
                    | Inr path \<Rightarrow>
                      let parts = split_on CHR ''/'' path;
                          container = nth_opt parts 1;
                          blob = nth_opt parts 2;
                          quantumUris = QuantumUris (endpointUri (workspace treeItem)) (ws_id (workspace treeItem));
                          c1 = Call_getTokenForWorkspace (workspace treeItem)
                      in (case getTokenForWorkspace e (workspace treeItem) of
                            Inl x \<Rightarrow> (s, c1 # download_catch x, Done)
                          | Inr None \<Rightarrow> (s, [c1], Done)
                          | Inr (Some token) \<Rightarrow>
                              if \<not> truthy token then (s, [c1], Done)
                              else
                                let c2 = Call_getJobFiles container blob token quantumUris
                                in (case getJobFiles e container blob token quantumUris of
                                      Inl x \<Rightarrow> (s, [c1, c2] @ download_catch x, Done)
                                    | Inr None \<Rightarrow> (s, [c1, c2], Done)
                                    | Inr (Some file) \<Rightarrow>
                                        if \<not> truthy file then (s, [c1, c2], Done)
                                        else (case openTextDocument e file of
                                                Some x \<Rightarrow>
                                                  (s, [c1, c2, Call_openTextDocument file] @ download_catch x, Done)
                                              | None \<Rightarrow>
                                                  (s, [c1, c2, Call_openTextDocument file, ShowTextDocument file],
                                                   Done)))))))"

section \<open>The persisted form, in the specification's words\<close>

text \<open>
  Section 6 of the specification: a persisted record keeps id, name, endpointUri, tenantId
  and apiKey, and its providers and jobs are always empty. This definition follows the
  specification; \<open>save_loop\<close> above follows the code.
\<close>

definition persisted_record :: "WorkspaceConnection \<Rightarrow> WorkspaceConnection" where
  "persisted_record w = w\<lparr>providers := [], jobs := []\<rparr>"

text \<open>What the code writes under the key, for a registry with the entries \<open>r\<close>.\<close>

definition persisted_text :: "env \<Rightarrow> registry \<Rightarrow> string" where
  "persisted_text e r = JSON_stringify e (map (\<lambda>kv. persisted_record (snd kv)) r)"

section \<open>Refresh cycle\<close>

text \<open>
  Modelled from the spec: the function \<^verbatim>\<open>startRefreshCycle\<close> (file \<^verbatim>\<open>treeRefresher.ts\<close>) is
  missing; \<^verbatim>\<open>commands.ts\<close> only calls it. Sections 4.2 and 5 of the specification describe
  it: a cycle is started for a workspace id, with an optional job id to prioritize; each
  tick fetches the workspace's snapshot and upserts it into the registry, as one atomic
  step of a single-threaded event loop; a failed fetch is logged and the cycle goes on; the
  cycle stops when no job is non-terminal or when the workspace has left the registry, and
  it exits without touching the registry when a newer cycle was started for the same id,
  which it detects through a generation counter per workspace id.
\<close>

record cycle =
  cyc_ws :: string
  cyc_gen :: nat
  cyc_job :: "string option"

datatype fetch = FetchFailed | Snapshot "Provider list" "Job list"

datatype tick_result = Continue | Finished | WorkspaceGone | Superseded

record sys =
  reg :: registry
  generation :: "string \<Rightarrow> nat"
  active :: "cycle list"

definition terminal :: "string \<Rightarrow> bool" where
  "terminal st = (st = ''Succeeded'' \<or> st = ''Failed'' \<or> st = ''Cancelled'')"

definition startRefreshCycle :: "WorkspaceConnection \<Rightarrow> string option \<Rightarrow> sys \<Rightarrow> sys \<times> cycle" where
  "startRefreshCycle w j s =
     (let g = Suc (generation s (ws_id w));
          c = \<lparr>cyc_ws = ws_id w, cyc_gen = g, cyc_job = j\<rparr>
      in (s\<lparr>generation := (generation s)(ws_id w := g), active := c # active s\<rparr>, c))"

definition tick :: "cycle \<Rightarrow> fetch \<Rightarrow> sys \<Rightarrow> sys \<times> tick_result" where
  "tick c f s =
     (if generation s (cyc_ws c) \<noteq> cyc_gen c then (s, Superseded)
      else (case getWorkspace (cyc_ws c) (reg s) of
              None \<Rightarrow> (s, WorkspaceGone)
            | Some w \<Rightarrow>
                (case f of
                   FetchFailed \<Rightarrow> (s, Continue)
                 | Snapshot ps js \<Rightarrow>
                     (s\<lparr>reg := updateWorkspace (w\<lparr>providers := ps, jobs := js\<rparr>) (reg s)\<rparr>,
                      if list_ex (\<lambda>j. \<not> terminal (status j)) js then Continue else Finished))))"

text \<open>
  What can happen on the event loop, one atomic step each: a tick of a cycle (with what its
  fetch answers), the start of a cycle, and the registry mutations of the command
  handlers. A cycle that has stopped does not tick any more.
\<close>

datatype event =
    Tick cycle fetch
  | Start WorkspaceConnection "string option"
  | Upsert WorkspaceConnection
  | Remove string

fun step :: "event \<Rightarrow> sys \<Rightarrow> sys" where
  "step (Tick c f) s =
     (if c \<in> set (active s)
      then (case tick c f s of
              (s', Continue) \<Rightarrow> s'
            | (s', _) \<Rightarrow> s'\<lparr>active := removeAll c (active s')\<rparr>)
      else s)"
| "step (Start w j) s = fst (startRefreshCycle w j s)"
| "step (Upsert w) s = s\<lparr>reg := updateWorkspace w (reg s)\<rparr>"
| "step (Remove i) s = s\<lparr>reg := removeWorkspace i (reg s)\<rparr>"




definition cycles_ok :: "sys \<Rightarrow> bool" where
  "cycles_ok s = list_all (\<lambda>c. cyc_gen c \<le> generation s (cyc_ws c)) (active s)"


text \<open>
  What a cycle's fetches leave in a registry entry: each snapshot replaces providers and
  jobs as a whole, a failed fetch changes nothing, and after a snapshot with no
  non-terminal job the cycle has stopped, so later fetches of it do not count.
\<close>

fun reflect :: "WorkspaceConnection \<Rightarrow> fetch list \<Rightarrow> WorkspaceConnection" where
  "reflect w0 [] = w0"
| "reflect w0 (FetchFailed # fs) = reflect w0 fs"
| "reflect w0 (Snapshot ps js # fs) =
     (if list_ex (\<lambda>j. \<not> terminal (status j)) js
      then reflect (w0\<lparr>providers := ps, jobs := js\<rparr>) fs
      else w0\<lparr>providers := ps, jobs := js\<rparr>)"




section \<open>Example inputs\<close>

definition mk_ws :: "string \<Rightarrow> string \<Rightarrow> WorkspaceConnection" where
  "mk_ws i n = \<lparr>ws_id = i, name = n, endpointUri = ''https://q.example'', tenantId = ''tenant'',
                apiKey = ''key'', providers = [], jobs = []\<rparr>"

definition job_done :: Job where
  "job_done = \<lparr>job_id = ''job1'', status = ''Succeeded'', outputDataUri = Some ''https://blob.example/c/b''\<rparr>"

definition job_running :: Job where
  "job_running = \<lparr>job_id = ''job2'', status = ''Executing'', outputDataUri = None\<rparr>"

definition ws_full :: WorkspaceConnection where
  "ws_full = (mk_ws ''w1'' ''first'')\<lparr>providers := [\<lparr>provider_id = ''ionq'', targets = [\<lparr>target_id = ''ionq.simulator''\<rparr>]\<rparr>],
                                     jobs := [job_done]\<rparr>"

definition target_item :: WorkspaceTreeItem where
  "target_item = \<lparr>label = Some ''ionq.simulator'', workspace = ws_full, itemType = TTarget,
                  itemData = TargetData \<lparr>target_id = ''ionq.simulator''\<rparr>\<rparr>"

definition job_item :: WorkspaceTreeItem where
  "job_item = \<lparr>label = Some ''job1'', workspace = ws_full, itemType = TJob, itemData = JobData job_done\<rparr>"

definition ws_item :: WorkspaceTreeItem where
  "ws_item = \<lparr>label = Some ''first'', workspace = ws_full, itemType = TWorkspace, itemData = WorkspaceData ws_full\<rparr>"

definition env0 :: env where
  "env0 = \<lparr>targetSupportQir = (\<lambda>t. take 4 t = ''ionq''),
           supportsAdaptive = (\<lambda>t. False),
           getQirForActiveWindow = (\<lambda>a. Inr ''qir-text''),
           getTokenForWorkspace = (\<lambda>w. Inr (Some ''token'')),
           submitJob = (\<lambda>t u q p i. Inr (Some ''job9'')),
           getJobFiles = (\<lambda>c b t u. Inr (Some ''{}'')),
           queryWorkspaces = Inr (Some (mk_ws ''w2'' ''second'')),
           JSON_stringify = (\<lambda>ws. concat (map (\<lambda>w. ws_id w @ '';'') ws)),
           JSON_parse = (\<lambda>t. Inr [mk_ws ''w1'' ''first'', mk_ws ''w2'' ''second'']),
           uri_path = (\<lambda>u. Inr ''/c/b''),
           openTextDocument = (\<lambda>c. None)\<rparr>"

definition env_qir_error :: env where
  "env_qir_error = env0\<lparr>getQirForActiveWindow := (\<lambda>a. Inl (Thrown (Some ''QirGenerationError'') ''bad program'' True))\<rparr>"

definition env_submit_error :: env where
  "env_submit_error = env0\<lparr>submitJob := (\<lambda>t u q p i. Inl (Thrown (Some ''Error'') ''HTTP 500'' True))\<rparr>"

definition env_no_token :: env where
  "env_no_token = env0\<lparr>getTokenForWorkspace := (\<lambda>w. Inr None)\<rparr>"

definition env_bad_uri :: env where
  "env_bad_uri = env0\<lparr>uri_path := (\<lambda>u. Inl (Thrown (Some ''Error'') ''[UriError]'' True))\<rparr>"

definition env_nothing_saved :: env where
  "env_nothing_saved = env0\<lparr>queryWorkspaces := Inr None\<rparr>"

definition state0 :: state where
  "state0 = \<lparr>registry = [(''w1'', ws_full)], secrets = Map.empty, currentTreeItem = None\<rparr>"

definition sys0 :: sys where
  "sys0 = \<lparr>reg = [(''w1'', ws_full)], generation = (\<lambda>i. 0), active = []\<rparr>"







section \<open>Properties of the registry\<close>

lemma getWorkspace_updateWorkspace:
  "getWorkspace i (updateWorkspace w r) = (if i = ws_id w then Some w else getWorkspace i r)"
  by (induction r) (auto simp: getWorkspace_def)

lemma upsert_all_snoc: "upsert_all (ws @ [w]) r = updateWorkspace w (upsert_all ws r)"
  by (simp add: upsert_all_def)

lemma getWorkspace_upsert_all_other:
  "i \<notin> ws_id ` set ws \<Longrightarrow> getWorkspace i (upsert_all ws r) = getWorkspace i r"
proof (induction ws rule: rev_induct)
  case Nil
  show ?case by (simp add: upsert_all_def)
next
  case (snoc w ws)
  then show ?case
    by (auto simp: upsert_all_snoc getWorkspace_updateWorkspace)
qed

lemma upsert_all_append: "upsert_all (xs @ ys) r = upsert_all ys (upsert_all xs r)"
  by (simp add: upsert_all_def)

text \<open>
  Claim C5. After any sequence of upsert calls, get(id) returns exactly the snapshot passed
  to the last upsert for that id: the whole record of that call, its providers and jobs
  lists included, and nothing of an earlier snapshot. The sequence is split at the last
  call for the id: \<open>before\<close>, the call \<open>w\<close>, and the calls \<open>after\<close> it, all for other ids.
\<close>

theorem registry_get_last_upsert:
  "ws_id w \<notin> ws_id ` set after \<Longrightarrow>
     getWorkspace (ws_id w) (upsert_all (before @ [w] @ after) r) = Some w"
proof -
  assume other: "ws_id w \<notin> ws_id ` set after"
  have "getWorkspace (ws_id w) (upsert_all (before @ [w] @ after) r)
      = getWorkspace (ws_id w) (upsert_all after (updateWorkspace w (upsert_all before r)))"
    by (simp add: upsert_all_append upsert_all_def)
  also have "\<dots> = getWorkspace (ws_id w) (updateWorkspace w (upsert_all before r))"
    using other by (rule getWorkspace_upsert_all_other)
  also have "\<dots> = Some w"
    by (simp add: getWorkspace_updateWorkspace)
  finally show ?thesis .
qed

theorem registry_get_last_upsert_witness:
  "ws_id ((mk_ws ''w1'' ''renamed'')\<lparr>jobs := [job_running]\<rparr>) \<notin> ws_id ` set [mk_ws ''w2'' ''second'']
   \<and> getWorkspace ''w1''
         (upsert_all ([ws_full] @ [(mk_ws ''w1'' ''renamed'')\<lparr>jobs := [job_running]\<rparr>] @ [mk_ws ''w2'' ''second'']) [])
       = Some \<lparr>ws_id = ''w1'', name = ''renamed'', endpointUri = ''https://q.example'', tenantId = ''tenant'',
               apiKey = ''key'', providers = [], jobs = [job_running]\<rparr>"
  using registry_get_last_upsert
    [of "(mk_ws ''w1'' ''renamed'')\<lparr>jobs := [job_running]\<rparr>" "[mk_ws ''w2'' ''second'']" "[ws_full]" "[]"]
  by (simp add: mk_ws_def)

section \<open>Saving the workspace list\<close>

lemma keys_updateWorkspace:
  "map fst (updateWorkspace w r) =
     (if ws_id w \<in> fst ` set r then map fst r else map fst r @ [ws_id w])"
  by (induction r) (force+)

lemma distinct_updateWorkspace:
  "distinct (map fst r) \<Longrightarrow> distinct (map fst (updateWorkspace w r))"
  by (simp add: keys_updateWorkspace)

lemma distinct_removeWorkspace:
  "distinct (map fst r) \<Longrightarrow> distinct (map fst (removeWorkspace i r))"
  by (simp add: removeWorkspace_def distinct_map_filter)

lemma save_loop_Some:
  "save_loop (map (\<lambda>kv. Some (snd kv)) r) acc = Inr (acc @ map (\<lambda>kv. persisted_record (snd kv)) r)"
  by (induction r arbitrary: acc) (auto simp: persisted_record_def)

text \<open>With distinct keys, looking every listed id up returns the entries in order.\<close>

lemma lookup_all:
  "distinct (map fst r) \<Longrightarrow> map (\<lambda>i. map_of r i) (map fst r) = map (\<lambda>kv. Some (snd kv)) r"
proof (induction r)
  case Nil
  show ?case by simp
next
  case (Cons kv r)
  have "map_of r k = map_of (kv # r) k" if "k \<in> fst ` set r" for k
    using that Cons.prems by (cases kv) auto
  then have "map (map_of (kv # r)) (map fst r) = map (map_of r) (map fst r)"
    by simp
  with Cons show ?case by (cases kv) simp
qed

lemma saveWorkspaceList_closed:
  assumes "distinct (getWorkspaceIds (registry s))"
  shows "saveWorkspaceList e s =
     (s\<lparr>secrets := (secrets s)(workspacesSecret \<mapsto> persisted_text e (registry s))\<rparr>,
      [LogDebug ''Saving workspaces: '', SecretsStore workspacesSecret (persisted_text e (registry s))],
      Done)"
proof -
  have "map (\<lambda>i. getWorkspace i (registry s)) (getWorkspaceIds (registry s))
        = map (\<lambda>kv. Some (snd kv)) (registry s)"
    using assms lookup_all [of "registry s"]
    by (simp add: getWorkspace_def getWorkspaceIds_def)
  then show ?thesis
    by (simp add: saveWorkspaceList_def save_loop_Some persisted_text_def)
qed

lemma persisted_fields:
  "list_all2 (\<lambda>p kv. ws_id p = ws_id (snd kv) \<and> name p = name (snd kv)
                      \<and> endpointUri p = endpointUri (snd kv) \<and> tenantId p = tenantId (snd kv)
                      \<and> apiKey p = apiKey (snd kv) \<and> providers p = [] \<and> jobs p = [])
     (map (\<lambda>kv. persisted_record (snd kv)) r) r"
  by (induction r) (simp_all add: persisted_record_def)

text \<open>
  Claim C1. For every list of workspaces held by the tree provider (an id-keyed mapping, so
  the listed ids are distinct), saveWorkspaceList returns normally and makes exactly one
  write to the secret store: under the key "qsharp-vscode.workspaces" it stores
  JSON.stringify of one list \<open>saved\<close> that has, position by position, one record per
  workspace of the registry with that workspace's id, name, endpointUri, tenantId and
  apiKey, and with providers and jobs empty. Nothing else of the state changes.
\<close>

theorem saveWorkspaceList_persists:
  assumes "distinct (getWorkspaceIds (registry s))"
  shows "\<exists>saved.
     saveWorkspaceList e s =
       (s\<lparr>secrets := (secrets s)(''qsharp-vscode.workspaces'' \<mapsto> JSON_stringify e saved)\<rparr>,
        [LogDebug ''Saving workspaces: '',
         SecretsStore ''qsharp-vscode.workspaces'' (JSON_stringify e saved)],
        Done)
     \<and> list_all2 (\<lambda>p kv. ws_id p = ws_id (snd kv) \<and> name p = name (snd kv)
                      \<and> endpointUri p = endpointUri (snd kv) \<and> tenantId p = tenantId (snd kv)
                      \<and> apiKey p = apiKey (snd kv) \<and> providers p = [] \<and> jobs p = [])
          saved (registry s)"
proof (intro exI conjI)
  show "saveWorkspaceList e s =
       (s\<lparr>secrets := (secrets s)(''qsharp-vscode.workspaces'' \<mapsto>
              JSON_stringify e (map (\<lambda>kv. persisted_record (snd kv)) (registry s)))\<rparr>,
        [LogDebug ''Saving workspaces: '',
         SecretsStore ''qsharp-vscode.workspaces''
           (JSON_stringify e (map (\<lambda>kv. persisted_record (snd kv)) (registry s)))],
        Done)"
    using saveWorkspaceList_closed [OF assms, of e]
    by (simp add: persisted_text_def workspacesSecret_def)
  show "list_all2 (\<lambda>p kv. ws_id p = ws_id (snd kv) \<and> name p = name (snd kv)
                      \<and> endpointUri p = endpointUri (snd kv) \<and> tenantId p = tenantId (snd kv)
                      \<and> apiKey p = apiKey (snd kv) \<and> providers p = [] \<and> jobs p = [])
          (map (\<lambda>kv. persisted_record (snd kv)) (registry s)) (registry s)"
    by (rule persisted_fields)
qed

theorem saveWorkspaceList_persists_witness:
  "distinct (getWorkspaceIds (registry state0))
   \<and> (\<exists>saved.
     saveWorkspaceList env0 state0 =
       (state0\<lparr>secrets := (secrets state0)(''qsharp-vscode.workspaces'' \<mapsto> JSON_stringify env0 saved)\<rparr>,
        [LogDebug ''Saving workspaces: '',
         SecretsStore ''qsharp-vscode.workspaces'' (JSON_stringify env0 saved)],
        Done)
     \<and> list_all2 (\<lambda>p kv. ws_id p = ws_id (snd kv) \<and> name p = name (snd kv)
                      \<and> endpointUri p = endpointUri (snd kv) \<and> tenantId p = tenantId (snd kv)
                      \<and> apiKey p = apiKey (snd kv) \<and> providers p = [] \<and> jobs p = [])
          saved (registry state0))
   \<and> saveWorkspaceList env0 state0 =
       (state0\<lparr>secrets := [''qsharp-vscode.workspaces'' \<mapsto> ''w1;'']\<rparr>,
        [LogDebug ''Saving workspaces: '', SecretsStore ''qsharp-vscode.workspaces'' ''w1;''],
        Done)"
proof -
  have d: "distinct (getWorkspaceIds (registry state0))"
    by (simp add: state0_def getWorkspaceIds_def)
  have v: "saveWorkspaceList env0 state0 =
       (state0\<lparr>secrets := [''qsharp-vscode.workspaces'' \<mapsto> ''w1;'']\<rparr>,
        [LogDebug ''Saving workspaces: '', SecretsStore ''qsharp-vscode.workspaces'' ''w1;''],
        Done)"
    by (simp add: saveWorkspaceList_def state0_def env0_def getWorkspaceIds_def getWorkspace_def
          ws_full_def mk_ws_def workspacesSecret_def)
  show ?thesis
    using d v saveWorkspaceList_persists [OF d, of env0] by blast
qed

section \<open>Loading the saved workspaces\<close>

lemma load_workspaces_closed:
  "load_workspaces ws r = (upsert_all ws r, map (\<lambda>w. StartRefreshCycle w None) ws)"
  by (induction ws arbitrary: r) (simp_all add: upsert_all_def)

lemma keys_set_updateWorkspace: "fst ` set (updateWorkspace w r) = insert (ws_id w) (fst ` set r)"
proof -
  have "set (map fst (updateWorkspace w r)) = insert (ws_id w) (set (map fst r))"
    unfolding keys_updateWorkspace by auto
  then show ?thesis by simp
qed

lemma keys_upsert_all: "fst ` set (upsert_all ws r) = fst ` set r \<union> ws_id ` set ws"
proof (induction ws arbitrary: r)
  case Nil
  show ?case by (simp add: upsert_all_def)
next
  case (Cons w ws)
  have "upsert_all (w # ws) r = upsert_all ws (updateWorkspace w r)"
    by (simp add: upsert_all_def)
  then show ?case
    by (simp add: Cons.IH keys_set_updateWorkspace)
qed

text \<open>
  Claim C2. When the secret store holds a non-empty text under the key and JSON.parse
  returns the list \<open>wss\<close>, initAzureWorkspaces calls updateWorkspace for every element in
  order (the registry is the result of these upserts on the fresh tree provider, so the
  registry's ids are exactly the ids of \<open>wss\<close>) and starts one refresh cycle for each
  element, with no job id. When the store has nothing under the key (or the empty text),
  the registry stays empty and no cycle is started.
\<close>

theorem initAzureWorkspaces_loads:
  "(sec workspacesSecret = Some txt \<and> truthy txt \<and> JSON_parse e txt = Inr wss \<longrightarrow>
      initAzureWorkspaces e sec =
        (\<lparr>registry = upsert_all wss [], secrets = sec, currentTreeItem = None\<rparr>,
         LogDebug ''Loading workspaces: '' # map (\<lambda>w. StartRefreshCycle w None) wss,
         Done)
      \<and> set (getWorkspaceIds (upsert_all wss [])) = ws_id ` set wss)
   \<and> (\<not> truthy_opt (sec workspacesSecret) \<longrightarrow>
      initAzureWorkspaces e sec =
        (\<lparr>registry = [], secrets = sec, currentTreeItem = None\<rparr>,
         [LogDebug ''No saved workspaces found.''], Done))"
  by (cases "sec workspacesSecret")
     (simp_all add: initAzureWorkspaces_def load_workspaces_closed keys_upsert_all
        getWorkspaceIds_def Let_def)

theorem initAzureWorkspaces_loads_witness:
  "[workspacesSecret \<mapsto> ''saved''] workspacesSecret = Some ''saved''
   \<and> truthy ''saved''
   \<and> JSON_parse env0 ''saved'' = Inr [mk_ws ''w1'' ''first'', mk_ws ''w2'' ''second'']
   \<and> initAzureWorkspaces env0 [workspacesSecret \<mapsto> ''saved''] =
        (\<lparr>registry = [(''w1'', mk_ws ''w1'' ''first''), (''w2'', mk_ws ''w2'' ''second'')],
          secrets = [workspacesSecret \<mapsto> ''saved''], currentTreeItem = None\<rparr>,
         [LogDebug ''Loading workspaces: '',
          StartRefreshCycle (mk_ws ''w1'' ''first'') None,
          StartRefreshCycle (mk_ws ''w2'' ''second'') None],
         Done)
   \<and> \<not> truthy_opt (Map.empty workspacesSecret)
   \<and> initAzureWorkspaces env0 Map.empty =
        (\<lparr>registry = [], secrets = Map.empty, currentTreeItem = None\<rparr>,
         [LogDebug ''No saved workspaces found.''], Done)"
proof -
  have p: "JSON_parse env0 ''saved'' = Inr [mk_ws ''w1'' ''first'', mk_ws ''w2'' ''second'']"
    by (simp add: env0_def)
  have u: "upsert_all [mk_ws ''w1'' ''first'', mk_ws ''w2'' ''second''] []
           = [(''w1'', mk_ws ''w1'' ''first''), (''w2'', mk_ws ''w2'' ''second'')]"
    by (simp add: upsert_all_def mk_ws_def)
  show ?thesis
    using p u
      initAzureWorkspaces_loads [of "[workspacesSecret \<mapsto> ''saved'']" "''saved''" env0
        "[mk_ws ''w1'' ''first'', mk_ws ''w2'' ''second'']"]
      initAzureWorkspaces_loads [of Map.empty "''saved''" env0 "[]"]
    by (simp add: truthy_def)
qed

section \<open>Selection flags\<close>

text \<open>
  Claim C8. After a selection change the handler sets the three UI-context flags, in this
  order, to these values: supports-QIR is true iff exactly one item is selected, it is a
  target and targetSupportQir holds of its label (read as text, the empty text when the
  item has no label); supports-download is true iff exactly one item is selected, it is a
  job whose status is "Succeeded" and whose outputDataUri is present and not empty;
  is-workspace is true iff exactly one item is selected and it is a workspace. The
  variable currentTreeItem becomes the single selected item, or nothing.
\<close>

theorem selection_flags:
  "onDidChangeSelection e sel s =
     (s\<lparr>currentTreeItem := (if length sel = 1 then Some (hd sel) else None)\<rparr>,
      [SetContext ''qsharp-vscode.treeItemSupportsQir''
         (length sel = 1 \<and> itemType (hd sel) = TTarget \<and> targetSupportQir e (label_text (hd sel))),
       SetContext ''qsharp-vscode.treeItemSupportsDownload''
         (length sel = 1 \<and> itemType (hd sel) = TJob \<and> data_status (itemData (hd sel)) = Some ''Succeeded''
            \<and> (\<exists>u. data_outputDataUri (itemData (hd sel)) = Some u \<and> u \<noteq> [])),
       SetContext ''qsharp-vscode.treeItemIsWorkspace''
         (length sel = 1 \<and> itemType (hd sel) = TWorkspace)])"
  by (cases sel; cases "tl sel"; cases "data_outputDataUri (itemData (hd sel))")
     (auto simp: onDidChangeSelection_def truthy_def)

theorem selection_flags_witness:
  "onDidChangeSelection env0 [job_item] state0 =
     (state0\<lparr>currentTreeItem := Some job_item\<rparr>,
      [SetContext ''qsharp-vscode.treeItemSupportsQir'' False,
       SetContext ''qsharp-vscode.treeItemSupportsDownload'' True,
       SetContext ''qsharp-vscode.treeItemIsWorkspace'' False])
   \<and> onDidChangeSelection env0 [target_item] state0 =
     (state0\<lparr>currentTreeItem := Some target_item\<rparr>,
      [SetContext ''qsharp-vscode.treeItemSupportsQir'' True,
       SetContext ''qsharp-vscode.treeItemSupportsDownload'' False,
       SetContext ''qsharp-vscode.treeItemIsWorkspace'' False])
   \<and> onDidChangeSelection env0 [ws_item, job_item] state0 =
     (state0\<lparr>currentTreeItem := None\<rparr>,
      [SetContext ''qsharp-vscode.treeItemSupportsQir'' False,
       SetContext ''qsharp-vscode.treeItemSupportsDownload'' False,
       SetContext ''qsharp-vscode.treeItemIsWorkspace'' False])"
  using selection_flags [of env0 "[job_item]" state0]
    selection_flags [of env0 "[target_item]" state0]
    selection_flags [of env0 "[ws_item, job_item]" state0]
  by (simp add: job_item_def target_item_def job_done_def env0_def label_text_def truthy_def)

section \<open>Missing preconditions\<close>

text \<open>
  Claim C7. When the resolved tree item (the argument, or else currentTreeItem) is absent
  or does not have the required type, targetSubmit, workspacesRemove and downloadResults
  return at once: the state is unchanged and the handler has done nothing to the outside
  (no call to a collaborator, no message, no write to the secret store).
\<close>

theorem wrong_item_noop:
  "(\<not> item_is TTarget (resolve_item arg s) \<longrightarrow> targetSubmit e arg s = (s, []))
   \<and> (\<not> item_is TWorkspace (resolve_item arg s) \<longrightarrow> workspacesRemove e arg s = (s, [], Done))
   \<and> (\<not> item_is TJob (resolve_item arg s) \<longrightarrow> downloadResults e arg s = (s, [], Done))"
  by (auto simp: item_is_def targetSubmit_def workspacesRemove_def downloadResults_def
           split: option.splits)

theorem wrong_item_noop_witness:
  "\<not> item_is TTarget (resolve_item (Some job_item) state0)
   \<and> targetSubmit env0 (Some job_item) state0 = (state0, [])
   \<and> \<not> item_is TWorkspace (resolve_item (Some job_item) state0)
   \<and> workspacesRemove env0 (Some job_item) state0 = (state0, [], Done)
   \<and> \<not> item_is TJob (resolve_item None state0)
   \<and> downloadResults env0 None state0 = (state0, [], Done)"
  using wrong_item_noop [of "Some job_item" state0 env0] wrong_item_noop [of None state0 env0]
  by (simp add: item_is_def resolve_item_def job_item_def state0_def)

section \<open>Submitting a job\<close>

lemma truthy_opt_iff: "truthy_opt j \<longleftrightarrow> (\<exists>x. j = Some x \<and> truthy x)"
  by (cases j) simp_all

text \<open>
  Claim C4. When targetSubmit runs on a target item, QIR generation yields a non-empty
  program, getTokenForWorkspace yields a token and submitJob returns a job id, the handler
  starts a refresh cycle for the item's workspace with that job id as the prioritized job,
  after the three calls. Conversely a refresh cycle appears among the handler's effects
  only when all this happened: submitJob returned a job id, and the cycle carries it.
\<close>

theorem targetSubmit_starts_cycle:
  "(resolve_item arg s = Some item \<and> itemType item = TTarget
      \<and> getQirForActiveWindow e (supportsAdaptive e (data_id (itemData item))) = Inr qir \<and> truthy qir
      \<and> getTokenForWorkspace e (workspace item) = Inr (Some token) \<and> truthy token
      \<and> submitJob e token (QuantumUris (endpointUri (workspace item)) (ws_id (workspace item))) qir
            (providerId_of (data_id (itemData item))) (data_id (itemData item)) = Inr (Some jobId)
      \<and> truthy jobId
    \<longrightarrow> targetSubmit e arg s =
          (s, [Call_getQirForActiveWindow (supportsAdaptive e (data_id (itemData item))),
               Call_getTokenForWorkspace (workspace item),
               Call_submitJob token (QuantumUris (endpointUri (workspace item)) (ws_id (workspace item))) qir
                 (providerId_of (data_id (itemData item))) (data_id (itemData item)),
               StartRefreshCycle (workspace item) (Some jobId)]))
   \<and> (StartRefreshCycle w j \<in> set (snd (targetSubmit e arg s))
    \<longrightarrow> (\<exists>item qir token jobId.
          resolve_item arg s = Some item \<and> itemType item = TTarget \<and> w = workspace item \<and> j = Some jobId
          \<and> truthy jobId
          \<and> getQirForActiveWindow e (supportsAdaptive e (data_id (itemData item))) = Inr qir
          \<and> getTokenForWorkspace e (workspace item) = Inr (Some token)
          \<and> submitJob e token (QuantumUris (endpointUri (workspace item)) (ws_id (workspace item))) qir
               (providerId_of (data_id (itemData item))) (data_id (itemData item)) = Inr (Some jobId)))"
proof (intro conjI impI)
  assume "resolve_item arg s = Some item \<and> itemType item = TTarget
      \<and> getQirForActiveWindow e (supportsAdaptive e (data_id (itemData item))) = Inr qir \<and> truthy qir
      \<and> getTokenForWorkspace e (workspace item) = Inr (Some token) \<and> truthy token
      \<and> submitJob e token (QuantumUris (endpointUri (workspace item)) (ws_id (workspace item))) qir
            (providerId_of (data_id (itemData item))) (data_id (itemData item)) = Inr (Some jobId)
      \<and> truthy jobId"
  then show "targetSubmit e arg s =
          (s, [Call_getQirForActiveWindow (supportsAdaptive e (data_id (itemData item))),
               Call_getTokenForWorkspace (workspace item),
               Call_submitJob token (QuantumUris (endpointUri (workspace item)) (ws_id (workspace item))) qir
                 (providerId_of (data_id (itemData item))) (data_id (itemData item)),
               StartRefreshCycle (workspace item) (Some jobId)])"
    by (simp add: targetSubmit_def Let_def)
next
  assume "StartRefreshCycle w j \<in> set (snd (targetSubmit e arg s))"
  then show "\<exists>item qir token jobId.
          resolve_item arg s = Some item \<and> itemType item = TTarget \<and> w = workspace item \<and> j = Some jobId
          \<and> truthy jobId
          \<and> getQirForActiveWindow e (supportsAdaptive e (data_id (itemData item))) = Inr qir
          \<and> getTokenForWorkspace e (workspace item) = Inr (Some token)
          \<and> submitJob e token (QuantumUris (endpointUri (workspace item)) (ws_id (workspace item))) qir
               (providerId_of (data_id (itemData item))) (data_id (itemData item)) = Inr (Some jobId)"
    by (auto simp: targetSubmit_def Let_def submit_catch_def truthy_opt_iff
             split: option.splits if_splits sum.splits)
qed

theorem targetSubmit_starts_cycle_witness:
  "resolve_item (Some target_item) state0 = Some target_item \<and> itemType target_item = TTarget
   \<and> getQirForActiveWindow env0 (supportsAdaptive env0 (data_id (itemData target_item))) = Inr ''qir-text''
   \<and> truthy ''qir-text''
   \<and> getTokenForWorkspace env0 (workspace target_item) = Inr (Some ''token'') \<and> truthy ''token''
   \<and> submitJob env0 ''token''
        (QuantumUris (endpointUri (workspace target_item)) (ws_id (workspace target_item))) ''qir-text''
        (providerId_of (data_id (itemData target_item))) (data_id (itemData target_item)) = Inr (Some ''job9'')
   \<and> truthy ''job9''
   \<and> targetSubmit env0 (Some target_item) state0 =
        (state0, [Call_getQirForActiveWindow False,
                  Call_getTokenForWorkspace ws_full,
                  Call_submitJob ''token'' (QuantumUris ''https://q.example'' ''w1'') ''qir-text''
                    ''ionq'' ''ionq.simulator'',
                  StartRefreshCycle ws_full (Some ''job9'')])
   \<and> StartRefreshCycle ws_full (Some ''job9'') \<in> set (snd (targetSubmit env0 (Some target_item) state0))"
  using targetSubmit_starts_cycle
    [of "Some target_item" state0 target_item env0 "''qir-text''" "''token''" "''job9''"
        ws_full "Some ''job9''"]
  by (simp add: env0_def target_item_def resolve_item_def truthy_def providerId_of_def
        ws_full_def mk_ws_def)

text \<open>
  Claim C10. When getTokenForWorkspace returns no token (\<^verbatim>\<open>undefined\<close> or the empty text),
  targetSubmit and downloadResults return right after that call: the state is unchanged,
  submitJob and getJobFiles are not called, and no message is shown. A handler gets to the
  call only past its earlier steps: in targetSubmit QIR generation has returned a
  non-empty program, in downloadResults the job has a non-empty outputDataUri and
  \<^verbatim>\<open>vscode.Uri.parse\<close> has returned (when it throws, the handler is rejected before the
  token is asked for).
\<close>

theorem token_falsy_silent:
  "(resolve_item arg s = Some item \<and> itemType item = TTarget
      \<and> getQirForActiveWindow e (supportsAdaptive e (data_id (itemData item))) = Inr qir \<and> truthy qir
      \<and> getTokenForWorkspace e (workspace item) = Inr tok \<and> \<not> truthy_opt tok
    \<longrightarrow> targetSubmit e arg s =
          (s, [Call_getQirForActiveWindow (supportsAdaptive e (data_id (itemData item))),
               Call_getTokenForWorkspace (workspace item)]))
   \<and> (resolve_item arg s = Some item \<and> itemType item = TJob
      \<and> data_outputDataUri (itemData item) = Some uri \<and> truthy uri \<and> uri_path e uri = Inr path
      \<and> getTokenForWorkspace e (workspace item) = Inr tok \<and> \<not> truthy_opt tok
    \<longrightarrow> downloadResults e arg s = (s, [Call_getTokenForWorkspace (workspace item)], Done))"
  by (cases tok) (simp_all add: targetSubmit_def downloadResults_def Let_def)

theorem token_falsy_silent_witness:
  "resolve_item (Some target_item) state0 = Some target_item \<and> itemType target_item = TTarget
   \<and> getQirForActiveWindow env_no_token (supportsAdaptive env_no_token (data_id (itemData target_item)))
       = Inr ''qir-text''
   \<and> truthy ''qir-text''
   \<and> getTokenForWorkspace env_no_token (workspace target_item) = Inr None \<and> \<not> truthy_opt None
   \<and> targetSubmit env_no_token (Some target_item) state0 =
        (state0, [Call_getQirForActiveWindow False, Call_getTokenForWorkspace ws_full])
   \<and> resolve_item (Some job_item) state0 = Some job_item \<and> itemType job_item = TJob
   \<and> data_outputDataUri (itemData job_item) = Some ''https://blob.example/c/b''
   \<and> truthy ''https://blob.example/c/b''
   \<and> uri_path env_no_token ''https://blob.example/c/b'' = Inr ''/c/b''
   \<and> getTokenForWorkspace env_no_token (workspace job_item) = Inr None
   \<and> downloadResults env_no_token (Some job_item) state0
       = (state0, [Call_getTokenForWorkspace ws_full], Done)"
  using token_falsy_silent [of "Some target_item" state0 target_item env_no_token "''qir-text''" None]
    token_falsy_silent [of "Some job_item" state0 job_item env_no_token "''qir-text''" None
      "''https://blob.example/c/b''" "''/c/b''"]
  by (simp add: env_no_token_def env0_def target_item_def job_item_def job_done_def
        resolve_item_def truthy_def)

text \<open>When the output uri does not parse, the handler is rejected before any call.\<close>

lemma downloadResults_uri_throws:
  "resolve_item arg s = Some item \<Longrightarrow> itemType item = TJob \<Longrightarrow>
   data_outputDataUri (itemData item) = Some uri \<Longrightarrow> truthy uri \<Longrightarrow> uri_path e uri = Inl x \<Longrightarrow>
   downloadResults e arg s = (s, [], Rejected x)"
  by (simp add: downloadResults_def)

lemma downloadResults_uri_throws_example:
  "downloadResults env_bad_uri (Some job_item) state0
     = (state0, [], Rejected (Thrown (Some ''Error'') ''[UriError]'' True))"
  by (simp add: downloadResults_def env_bad_uri_def env0_def job_item_def job_done_def
        resolve_item_def truthy_def)

text \<open>
  Claim C3, as the code has it. On a target item: when QIR generation throws a
  QirGenerationError, the handler shows that error's message, not modal, and returns; for
  any exception of QIR generation it returns after at most that message. When
  getTokenForWorkspace or submitJob throws, the handler logs the error and shows the modal
  error "Failed to submit the job to Azure.", with the error's message as detail when the
  thrown value is an Error. In each of these cases the state is unchanged, no job id is
  obtained and no refresh cycle is started.
\<close>

theorem targetSubmit_failures:
  assumes "resolve_item arg s = Some item" and "itemType item = TTarget"
  shows
  "(getQirForActiveWindow e (supportsAdaptive e (data_id (itemData item))) = Inl x \<longrightarrow>
      (thrown_name x = Some ''QirGenerationError'' \<longrightarrow>
         targetSubmit e arg s =
           (s, [Call_getQirForActiveWindow (supportsAdaptive e (data_id (itemData item))),
                ShowErrorMessage (thrown_message x) False None]))
      \<and> (targetSubmit e arg s =
           (s, [Call_getQirForActiveWindow (supportsAdaptive e (data_id (itemData item)))])
         \<or> targetSubmit e arg s =
           (s, [Call_getQirForActiveWindow (supportsAdaptive e (data_id (itemData item))),
                ShowErrorMessage (thrown_message x) False None])))
   \<and> (getQirForActiveWindow e (supportsAdaptive e (data_id (itemData item))) = Inr qir \<and> truthy qir
      \<and> getTokenForWorkspace e (workspace item) = Inl x \<longrightarrow>
      targetSubmit e arg s =
        (s, [Call_getQirForActiveWindow (supportsAdaptive e (data_id (itemData item))),
             Call_getTokenForWorkspace (workspace item),
             LogError ''Failed to submit job. '',
             ShowErrorMessage ''Failed to submit the job to Azure.'' True
               (if instanceof_Error x then Some (thrown_message x) else None)]))
   \<and> (getQirForActiveWindow e (supportsAdaptive e (data_id (itemData item))) = Inr qir \<and> truthy qir
      \<and> getTokenForWorkspace e (workspace item) = Inr (Some token) \<and> truthy token
      \<and> submitJob e token (QuantumUris (endpointUri (workspace item)) (ws_id (workspace item))) qir
            (providerId_of (data_id (itemData item))) (data_id (itemData item)) = Inl x \<longrightarrow>
      targetSubmit e arg s =
        (s, [Call_getQirForActiveWindow (supportsAdaptive e (data_id (itemData item))),
             Call_getTokenForWorkspace (workspace item),
             Call_submitJob token (QuantumUris (endpointUri (workspace item)) (ws_id (workspace item))) qir
               (providerId_of (data_id (itemData item))) (data_id (itemData item)),
             LogError ''Failed to submit job. '',
             ShowErrorMessage ''Failed to submit the job to Azure.'' True
               (if instanceof_Error x then Some (thrown_message x) else None)]))"
  using assms by (simp add: targetSubmit_def Let_def submit_catch_def)

theorem targetSubmit_failures_witness:
  "resolve_item (Some target_item) state0 = Some target_item \<and> itemType target_item = TTarget
   \<and> getQirForActiveWindow env_qir_error (supportsAdaptive env_qir_error (data_id (itemData target_item)))
       = Inl (Thrown (Some ''QirGenerationError'') ''bad program'' True)
   \<and> targetSubmit env_qir_error (Some target_item) state0 =
        (state0, [Call_getQirForActiveWindow False, ShowErrorMessage ''bad program'' False None])
   \<and> getQirForActiveWindow env_submit_error (supportsAdaptive env_submit_error (data_id (itemData target_item)))
       = Inr ''qir-text''
   \<and> truthy ''qir-text''
   \<and> getTokenForWorkspace env_submit_error (workspace target_item) = Inr (Some ''token'') \<and> truthy ''token''
   \<and> submitJob env_submit_error ''token''
        (QuantumUris (endpointUri (workspace target_item)) (ws_id (workspace target_item))) ''qir-text''
        (providerId_of (data_id (itemData target_item))) (data_id (itemData target_item))
       = Inl (Thrown (Some ''Error'') ''HTTP 500'' True)
   \<and> targetSubmit env_submit_error (Some target_item) state0 =
        (state0, [Call_getQirForActiveWindow False,
                  Call_getTokenForWorkspace ws_full,
                  Call_submitJob ''token'' (QuantumUris ''https://q.example'' ''w1'') ''qir-text''
                    ''ionq'' ''ionq.simulator'',
                  LogError ''Failed to submit job. '',
                  ShowErrorMessage ''Failed to submit the job to Azure.'' True (Some ''HTTP 500'')])"
proof -
  have r: "resolve_item (Some target_item) state0 = Some target_item"
    by (simp add: resolve_item_def)
  have ty: "itemType target_item = TTarget"
    by (simp add: target_item_def)
  show ?thesis
    using r ty
      targetSubmit_failures [OF r ty, of env_qir_error "Thrown (Some ''QirGenerationError'') ''bad program'' True"
        "''qir-text''" "''token''"]
      targetSubmit_failures [OF r ty, of env_submit_error "Thrown (Some ''Error'') ''HTTP 500'' True"
        "''qir-text''" "''token''"]
    by (simp add: env_qir_error_def env_submit_error_def env0_def target_item_def truthy_def
          providerId_of_def ws_full_def mk_ws_def)
qed

text \<open>
  The claim as the specification states it asks for a modal message on every failure. With
  a QirGenerationError the message is shown with no \<^verbatim>\<open>modal\<close> option.
\<close>

theorem targetSubmit_qir_error_not_modal:
  "targetSubmit env_qir_error (Some target_item) state0 =
     (state0, [Call_getQirForActiveWindow False, ShowErrorMessage ''bad program'' False None])"
  by (simp add: targetSubmit_def env_qir_error_def env0_def target_item_def resolve_item_def Let_def)

section \<open>Adding a workspace\<close>

text \<open>
  Claim C9. When workspace discovery returns a workspace, workspacesAdd upserts it into the
  registry and then persists the list of the updated registry under the key (and starts a
  refresh cycle for it). When discovery returns no workspace, the registry and the secret
  store are unchanged and nothing else is done.
\<close>

theorem workspacesAdd_upserts_then_persists:
  "(distinct (getWorkspaceIds (registry s)) \<and> queryWorkspaces e = Inr (Some w) \<longrightarrow>
      workspacesAdd e s =
        (s\<lparr>registry := updateWorkspace w (registry s),
           secrets := (secrets s)(''qsharp-vscode.workspaces'' \<mapsto>
              JSON_stringify e (map (\<lambda>kv. persisted_record (snd kv)) (updateWorkspace w (registry s))))\<rparr>,
         [Call_queryWorkspaces,
          LogDebug ''Saving workspaces: '',
          SecretsStore ''qsharp-vscode.workspaces''
            (JSON_stringify e (map (\<lambda>kv. persisted_record (snd kv)) (updateWorkspace w (registry s)))),
          StartRefreshCycle w None],
         Done))
   \<and> (queryWorkspaces e = Inr None \<longrightarrow> workspacesAdd e s = (s, [Call_queryWorkspaces], Done))"
proof (intro conjI impI)
  assume a: "distinct (getWorkspaceIds (registry s)) \<and> queryWorkspaces e = Inr (Some w)"
  have d: "distinct (getWorkspaceIds (registry (s\<lparr>registry := updateWorkspace w (registry s)\<rparr>)))"
    using a by (simp add: getWorkspaceIds_def distinct_updateWorkspace)
  show "workspacesAdd e s =
        (s\<lparr>registry := updateWorkspace w (registry s),
           secrets := (secrets s)(''qsharp-vscode.workspaces'' \<mapsto>
              JSON_stringify e (map (\<lambda>kv. persisted_record (snd kv)) (updateWorkspace w (registry s))))\<rparr>,
         [Call_queryWorkspaces,
          LogDebug ''Saving workspaces: '',
          SecretsStore ''qsharp-vscode.workspaces''
            (JSON_stringify e (map (\<lambda>kv. persisted_record (snd kv)) (updateWorkspace w (registry s)))),
          StartRefreshCycle w None],
         Done)"
    using a saveWorkspaceList_closed [OF d, of e]
    by (simp add: workspacesAdd_def persisted_text_def workspacesSecret_def)
next
  assume "queryWorkspaces e = Inr None"
  then show "workspacesAdd e s = (s, [Call_queryWorkspaces], Done)"
    by (simp add: workspacesAdd_def)
qed

theorem workspacesAdd_upserts_then_persists_witness:
  "distinct (getWorkspaceIds (registry state0))
   \<and> queryWorkspaces env0 = Inr (Some (mk_ws ''w2'' ''second''))
   \<and> workspacesAdd env0 state0 =
        (state0\<lparr>registry := [(''w1'', ws_full), (''w2'', mk_ws ''w2'' ''second'')],
                secrets := [''qsharp-vscode.workspaces'' \<mapsto> ''w1;w2;'']\<rparr>,
         [Call_queryWorkspaces,
          LogDebug ''Saving workspaces: '',
          SecretsStore ''qsharp-vscode.workspaces'' ''w1;w2;'',
          StartRefreshCycle (mk_ws ''w2'' ''second'') None],
         Done)
   \<and> queryWorkspaces env_nothing_saved = Inr None
   \<and> workspacesAdd env_nothing_saved state0 = (state0, [Call_queryWorkspaces], Done)"
  using workspacesAdd_upserts_then_persists [of state0 env0 "mk_ws ''w2'' ''second''"]
    workspacesAdd_upserts_then_persists [of state0 env_nothing_saved "mk_ws ''w2'' ''second''"]
  by (simp add: env_nothing_saved_def env0_def state0_def getWorkspaceIds_def persisted_record_def
        ws_full_def mk_ws_def)

section \<open>Supersession of refresh cycles\<close>

text \<open>A tick changes neither the generation counters nor the list of running cycles.\<close>

lemma tick_generation: "generation (fst (tick c f s)) = generation s"
  by (simp add: tick_def split: option.splits fetch.splits)

lemma tick_active: "active (fst (tick c f s)) = active s"
  by (simp add: tick_def split: option.splits fetch.splits)
















lemma cycles_ok_step: "cycles_ok s \<Longrightarrow> cycles_ok (step ev s)"
proof (cases ev)
  case (Tick d f)
  assume ok: "cycles_ok s"
  obtain s' r where ts: "tick d f s = (s', r)" by (cases "tick d f s")
  have "active s' = active s" "generation s' = generation s"
    using tick_active [of d f s] tick_generation [of d f s] ts by simp_all
  with Tick ts ok show ?thesis
    by (cases r) (auto simp: cycles_ok_def list_all_iff)
next
  case (Start w j)
  assume "cycles_ok s"
  with Start show ?thesis
    by (auto simp: cycles_ok_def list_all_iff startRefreshCycle_def Let_def le_Suc_eq)
qed (simp_all add: cycles_ok_def)


text \<open>A tick of the latest cycle for a registered workspace writes the fetched snapshot.\<close>

lemma tick_current_writes:
  assumes "generation s (cyc_ws c) = cyc_gen c" and "getWorkspace (cyc_ws c) (reg s) = Some w0"
    and "ws_id w0 = cyc_ws c"
  shows "getWorkspace (cyc_ws c) (reg (fst (tick c (Snapshot ps js) s)))
           = Some (w0\<lparr>providers := ps, jobs := js\<rparr>)"
  using assms by (simp add: tick_def getWorkspace_updateWorkspace)


lemma reflect_id: "ws_id (reflect w0 fs) = ws_id w0"
  by (induction w0 fs rule: reflect.induct) simp_all






end
